theory Spec2Isabelle
  imports Complex_Main
begin

section \<open>Synthetic image generation: photutils/datasets/make.py\<close>

text \<open>
  The module renders tables of source parameters through a shared, mutable parametric
  model onto a pixel grid. Its functions are embedded here as HOL functions: a raised
  exception is the \<open>Inl\<close> of a sum, the mutated model object is passed in and returned,
  and the collaborators that the module only calls (model evaluation, the
  discretisation kernel, the random number generator) are parameters.
  Pixel and parameter values are real numbers: rounding, infinities and NaN of the
  float64 arrays are outside the embedding.
\<close>

subsection \<open>Exceptions\<close>

datatype error =
    ValueError string
  | TypeError string
  | KeyError string
  | IndexError string
  | UnboundLocalError string
  | AttributeError string
  | Raised string  \<comment> \<open>any exception raised by a collaborator\<close>

subsection \<open>Insertion-ordered mappings\<close>

text \<open>
  A Python dict and the columns of a Table keep insertion order: assigning to an
  existing key replaces its value where it stands, assigning to a new key appends it.
\<close>

fun setitem :: "'k \<Rightarrow> 'v \<Rightarrow> ('k \<times> 'v) list \<Rightarrow> ('k \<times> 'v) list" where
  "setitem k v [] = [(k, v)]"
| "setitem k v ((k', v') # kvs) =
     (if k' = k then (k, v) # kvs else (k', v') # setitem k v kvs)"

fun delitem :: "'k \<Rightarrow> ('k \<times> 'v) list \<Rightarrow> ('k \<times> 'v) list" where
  "delitem k [] = []"
| "delitem k ((k', v') # kvs) = (if k' = k then kvs else (k', v') # delitem k kvs)"

subsection \<open>Source tables\<close>

text \<open>
  A Table is stored by column: the ordered column names with one value list each.
  \<open>len(table)\<close> is the length of the first column, and 0 for a table without columns.
  A well-formed table has distinct column names and columns of one length.
\<close>

type_synonym table = "(string \<times> real list) list"

definition colnames :: "table \<Rightarrow> string list" where
  "colnames t = map fst t"

definition len_table :: "table \<Rightarrow> nat" where
  "len_table t = (case t of [] \<Rightarrow> 0 | (_, vs) # _ \<Rightarrow> length vs)"

definition valid_table :: "table \<Rightarrow> bool" where
  "valid_table t \<longleftrightarrow> distinct (colnames t) \<and> list_all (\<lambda>(_, vs). length vs = len_table t) t"

text \<open>\<open>source[name]\<close> for the row \<open>source\<close> at index \<open>i\<close> of the table.\<close>

definition row_get :: "table \<Rightarrow> nat \<Rightarrow> string \<Rightarrow> error + real" where
  "row_get t i nm =
     (case map_of t nm of
        None \<Rightarrow> Inl (KeyError nm)
      | Some vs \<Rightarrow> if i < length vs then Inr (vs ! i) else Inl (IndexError nm))"


subsection \<open>Pixel grids\<close>

type_synonym grid = "real list list"

definition zeros :: "nat \<Rightarrow> nat \<Rightarrow> grid" where
  "zeros ny nx = replicate ny (replicate nx 0)"

text \<open>
  numpy broadcasting of a result \<open>r\<close> to the image's shape \<open>(ny, nx)\<close>: each dimension of
  \<open>r\<close> is the image's or 1, and a dimension of 1 is repeated. A result of fewer than two
  dimensions is given with leading dimensions of 1 (a scalar as \<open>[[v]]\<close>, a row as
  \<open>[row]\<close>), which is how numpy aligns it.
\<close>

definition stretch :: "nat \<Rightarrow> 'a list \<Rightarrow> 'a list" where
  "stretch n xs = (case xs of [x] \<Rightarrow> replicate n x | _ \<Rightarrow> xs)"

definition broadcast_to :: "nat \<Rightarrow> nat \<Rightarrow> grid \<Rightarrow> error + grid" where
  "broadcast_to ny nx r =
     (if (length r = ny \<or> length r = 1) \<and>
         (list_all (\<lambda>row. length row = nx) r \<or> list_all (\<lambda>row. length row = 1) r)
      then Inr (stretch ny (map (stretch nx) r))
      else Inl (ValueError ''operands could not be broadcast together''))"

text \<open>\<open>image += r\<close> for an image of shape \<open>(ny, nx)\<close>.\<close>

definition iadd :: "nat \<Rightarrow> nat \<Rightarrow> grid \<Rightarrow> grid \<Rightarrow> error + grid" where
  "iadd ny nx img r =
     (case broadcast_to ny nx r of
        Inl e \<Rightarrow> Inl e
      | Inr b \<Rightarrow> Inr (map2 (map2 (+)) img b))"

subsection \<open>Parametric models\<close>

text \<open>
  A model object holds the declared parameter names, the current value of every
  parameter, and its evaluation over the index grids of an image of shape \<open>(ny, nx)\<close>,
  which depends on the current values and may raise.

  What reading an attribute returns depends on the object. On an astropy model, the
  documented argument, \<open>getattr(model, name)\<close> is a Parameter object: a live view of the
  model's parameter, which shows the current value whenever it is read. On an object
  with plain attributes it is the number itself. The field \<open>parameter_objects\<close> tells the
  two apart.
\<close>

datatype attr = Number real | Parameter string

record model =
  param_names :: "string list"
  params :: "string \<Rightarrow> real"
  evaluate :: "(string \<Rightarrow> real) \<Rightarrow> nat \<Rightarrow> nat \<Rightarrow> error + grid"
  parameter_objects :: bool

definition getattr :: "model \<Rightarrow> string \<Rightarrow> attr" where
  "getattr m nm = (if parameter_objects m then Parameter nm else Number (params m nm))"

text \<open>The number that a value stands for at the moment it is assigned.\<close>

definition attr_value :: "model \<Rightarrow> attr \<Rightarrow> real" where
  "attr_value m v = (case v of Number r \<Rightarrow> r | Parameter nm \<Rightarrow> params m nm)"

definition setattr :: "model \<Rightarrow> string \<Rightarrow> attr \<Rightarrow> model" where
  "setattr m nm v = m\<lparr>params := (params m)(nm := attr_value m v)\<rparr>"

text \<open>\<open>model(x, y)\<close> with \<open>y, x = np.indices((ny, nx))\<close>.\<close>

definition call_model :: "model \<Rightarrow> nat \<Rightarrow> nat \<Rightarrow> error + grid" where
  "call_model m ny nx = evaluate m (params m) ny nx"

text \<open>
  \<open>discretize_model(model, x_range, y_range, mode='oversample', factor=oversample)\<close> is
  astropy's kernel: a parameter of the renderer.
\<close>

type_synonym discretizer = "model \<Rightarrow> nat \<times> nat \<Rightarrow> nat \<times> nat \<Rightarrow> real \<Rightarrow> error + grid"

subsection \<open>The image argument\<close>

text \<open>
  The first argument of the renderer is documented as a tuple of ints or an array.
  Dimensions are sizes, hence natural numbers.
\<close>

datatype image_arg = Shape "nat list" | Array grid

text \<open>
  numpy reads a shape argument as a sequence of integers. A tuple of ints is that
  sequence. A 2-dimensional array is iterated into its rows, which are 1-dimensional
  arrays and not integers, so the conversion raises TypeError; an array without rows is
  the empty sequence.
\<close>

definition as_shape :: "image_arg \<Rightarrow> error + nat list" where
  "as_shape a =
     (case a of
        Shape dims \<Rightarrow> Inr dims
      | Array g \<Rightarrow>
          if g = [] then Inr []
          else Inl (TypeError ''only integer scalar arrays can be converted to a scalar index''))"

text \<open>
  \<open>y, x = np.indices(image_shape)\<close>: \<open>np.indices\<close> returns one index array per
  dimension, and the assignment unpacks exactly two.
\<close>

definition unpack2 :: "'a list \<Rightarrow> error + 'a \<times> 'a" where
  "unpack2 xs =
     (case xs of
        [a, b] \<Rightarrow> Inr (a, b)
      | [] \<Rightarrow> Inl (ValueError ''not enough values to unpack'')
      | [a] \<Rightarrow> Inl (ValueError ''not enough values to unpack'')
      | _ \<Rightarrow> Inl (ValueError ''too many values to unpack''))"

subsection \<open>make_model_sources_image\<close>

text \<open>
  The local state of a call: the borrowed model object, the accumulator \<open>image\<close>, and the
  loop variable \<open>paramnm\<close>, which is unbound (\<open>None\<close>) until the inner loop first runs.
\<close>

record frame =
  the_model :: model
  image_arr :: grid
  paramnm :: "string option"

text \<open>Lines 296--299: the column names that are parameter names, in column order.\<close>

definition params_to_set :: "model \<Rightarrow> table \<Rightarrow> string list" where
  "params_to_set m t = filter (\<lambda>colnm. colnm \<in> set (param_names m)) (colnames t)"

text \<open>
  Line 304: the dict comprehension over \<open>params_to_set\<close>, as an insertion-ordered dict.
  It holds what \<open>getattr\<close> returned: numbers, or Parameter objects that keep following the
  model.
\<close>

definition init_params :: "model \<Rightarrow> string list \<Rightarrow> (string \<times> attr) list" where
  "init_params m pts = fold (\<lambda>pnm d. setitem pnm (getattr m pnm) d) pts []"

text \<open>
  Lines 308--309: the inner loop of row \<open>i\<close>. The result is the exception raised, if
  any, with the state at that point.
\<close>

fun set_row_params :: "table \<Rightarrow> nat \<Rightarrow> string list \<Rightarrow> frame \<Rightarrow> error option \<times> frame" where
  "set_row_params t i [] f = (None, f)"
| "set_row_params t i (nm # nms) f =
     (case row_get t i nm of
        Inl e \<Rightarrow> (Some e, f\<lparr>paramnm := Some nm\<rparr>)
      | Inr v \<Rightarrow>
          set_row_params t i nms
            (f\<lparr>the_model := setattr (the_model f) nm (Number v), paramnm := Some nm\<rparr>))"

text \<open>Lines 310--315: evaluate the model and add the result into the image.\<close>

definition add_source :: "discretizer \<Rightarrow> nat \<Rightarrow> nat \<Rightarrow> real \<Rightarrow> frame \<Rightarrow> error option \<times> frame" where
  "add_source dm ny nx oversample f =
     (case (if oversample = 1 then call_model (the_model f) ny nx
            else dm (the_model f) (0, nx) (0, ny) oversample) of
        Inl e \<Rightarrow> (Some e, f)
      | Inr r \<Rightarrow>
          (case iadd ny nx (image_arr f) r of
             Inl e \<Rightarrow> (Some e, f)
           | Inr img \<Rightarrow> (None, f\<lparr>image_arr := img\<rparr>)))"

text \<open>Lines 307--315: the loop over the rows, given as their indices.\<close>

fun render_rows ::
  "discretizer \<Rightarrow> nat \<Rightarrow> nat \<Rightarrow> real \<Rightarrow> table \<Rightarrow> string list \<Rightarrow> nat list \<Rightarrow> frame
     \<Rightarrow> error option \<times> frame" where
  "render_rows dm ny nx oversample t pts [] f = (None, f)"
| "render_rows dm ny nx oversample t pts (i # is) f =
     (case set_row_params t i pts f of
        (Some e, f') \<Rightarrow> (Some e, f')
      | (None, f') \<Rightarrow>
          (case add_source dm ny nx oversample f' of
             (Some e, f'') \<Rightarrow> (Some e, f'')
           | (None, f'') \<Rightarrow> render_rows dm ny nx oversample t pts is f''))"

text \<open>
  Lines 317--318: the \<open>finally\<close> loop. It assigns to the attribute named by \<open>paramnm\<close>,
  not by its own loop variable \<open>pnm\<close>; reading \<open>paramnm\<close> while it is unbound raises.
  A saved Parameter object is read when it is assigned, so it gives the parameter's
  value of that moment.
\<close>

fun restore_params :: "(string \<times> attr) list \<Rightarrow> frame \<Rightarrow> error option \<times> frame" where
  "restore_params [] f = (None, f)"
| "restore_params ((pnm, val) # rest) f =
     (case paramnm f of
        None \<Rightarrow> (Some (UnboundLocalError ''paramnm''), f)
      | Some p \<Rightarrow> restore_params rest (f\<lparr>the_model := setattr (the_model f) p val\<rparr>))"

text \<open>
  The whole function. The result pairs what the call returns or raises with the state
  in which it leaves the caller's model object. An exception of the \<open>finally\<close> block
  replaces one raised in the \<open>try\<close> body; otherwise the latter is raised again.
\<close>

definition make_model_sources_image ::
  "discretizer \<Rightarrow> image_arg \<Rightarrow> model \<Rightarrow> table \<Rightarrow> real \<Rightarrow> (error + grid) \<times> model" where
  "make_model_sources_image dm image_shape m source_table oversample =
     (case as_shape image_shape of
        Inl e \<Rightarrow> (Inl e, m)
      | Inr dims \<Rightarrow>
          (case unpack2 dims of
             Inl e \<Rightarrow> (Inl e, m)
           | Inr (ny, nx) \<Rightarrow>
               (let pts = params_to_set m source_table;
                    init = init_params m pts;
                    f0 = \<lparr>the_model = m, image_arr = zeros ny nx, paramnm = None\<rparr>;
                    (raised, f1) =
                      render_rows dm ny nx oversample source_table pts
                        [0 ..< len_table source_table] f0;
                    (raised', f2) = restore_params init f1
                in (case raised' of
                      Some e \<Rightarrow> (Inl e, the_model f2)
                    | None \<Rightarrow>
                        (case raised of
                           Some e \<Rightarrow> (Inl e, the_model f2)
                         | None \<Rightarrow> (Inr (image_arr f2), the_model f2))))))"


subsection \<open>make_gaussian_sources_image\<close>

text \<open>
  The caller's table is an object that the function could write to, so tables live in a
  store: \<open>objs\<close> gives the table at each address, and the addresses below \<open>fresh\<close> are
  allocated. \<open>source_table.copy()\<close> allocates a new table with the same columns.
\<close>

record store =
  objs :: "nat \<Rightarrow> table"
  fresh :: nat

definition copy_table :: "store \<Rightarrow> nat \<Rightarrow> store \<times> nat" where
  "copy_table s r = (s\<lparr>objs := (objs s)(fresh s := objs s r), fresh := Suc (fresh s)\<rparr>, fresh s)"

definition write_table :: "store \<Rightarrow> nat \<Rightarrow> table \<Rightarrow> store" where
  "write_table s r t = s\<lparr>objs := (objs s)(r := t)\<rparr>"

text \<open>\<open>table[name]\<close>: the whole column.\<close>

definition column :: "table \<Rightarrow> string \<Rightarrow> error + real list" where
  "column t nm = (case map_of t nm of None \<Rightarrow> Inl (KeyError nm) | Some vs \<Rightarrow> Inr vs)"

text \<open>
  Lines 240--242, row by row. Where a standard deviation is zero numpy yields an
  infinity or NaN, which the reals do not have; the quotient is meaningful for non-zero
  standard deviations only.
\<close>

definition flux_to_amplitude :: "real list \<Rightarrow> real list \<Rightarrow> real list \<Rightarrow> real list" where
  "flux_to_amplitude flux x_stddev y_stddev =
     map (\<lambda>(f, sx, sy). f / (2 * pi * sx * sy)) (zip flux (zip x_stddev y_stddev))"

text \<open>
  Lines 238--247: the table handed to the renderer, by address. With a flux column the
  function rebinds its local name to a copy and edits the copy.
\<close>

definition gaussian_table :: "store \<Rightarrow> nat \<Rightarrow> (error + nat) \<times> store" where
  "gaussian_table s source_table =
     (if ''flux'' \<in> set (colnames (objs s source_table)) then
        (let (s1, r) = copy_table s source_table in
         case column (objs s1 r) ''flux'' of
           Inl e \<Rightarrow> (Inl e, s1)
         | Inr flux \<Rightarrow>
            (case column (objs s1 r) ''x_stddev'' of
               Inl e \<Rightarrow> (Inl e, s1)
             | Inr x_stddev \<Rightarrow>
                (case column (objs s1 r) ''y_stddev'' of
                   Inl e \<Rightarrow> (Inl e, s1)
                 | Inr y_stddev \<Rightarrow>
                    (let amplitude = flux_to_amplitude flux x_stddev y_stddev;
                         s2 = write_table s1 r (setitem ''amplitude'' amplitude (objs s1 r));
                         s3 = write_table s2 r (delitem ''flux'' (objs s2 r))
                     in (Inr r, s3)))))
      else if ''amplitude'' \<notin> set (colnames (objs s source_table)) then
        (Inl (ValueError ''either amplitude or flux must be columns in the input source_table''), s)
      else (Inr source_table, s))"

text \<open>
  \<open>Gaussian2D(x_stddev=..., y_stddev=...)\<close>: astropy's model with its six parameters and
  their defaults. Its evaluation is astropy's and stays a parameter.
\<close>

definition Gaussian2D ::
  "((string \<Rightarrow> real) \<Rightarrow> nat \<Rightarrow> nat \<Rightarrow> error + grid) \<Rightarrow> real \<Rightarrow> real \<Rightarrow> model" where
  "Gaussian2D ev x_stddev y_stddev =
     \<lparr>param_names = [''amplitude'', ''x_mean'', ''y_mean'', ''x_stddev'', ''y_stddev'', ''theta''],
      params = (\<lambda>_. 0)(''amplitude'' := 1, ''x_stddev'' := x_stddev, ''y_stddev'' := y_stddev),
      evaluate = ev, parameter_objects = True\<rparr>"

text \<open>
  The whole function: what the call returns or raises, and the store it leaves. The
  model object is created inside the call and dropped with it.
\<close>

definition make_gaussian_sources_image ::
  "((string \<Rightarrow> real) \<Rightarrow> nat \<Rightarrow> nat \<Rightarrow> error + grid) \<Rightarrow> discretizer \<Rightarrow> store
     \<Rightarrow> image_arg \<Rightarrow> nat \<Rightarrow> real \<Rightarrow> (error + grid) \<times> store" where
  "make_gaussian_sources_image ev dm s image_shape source_table oversample =
     (case gaussian_table s source_table of
        (Inl e, s') \<Rightarrow> (Inl e, s')
      | (Inr r, s') \<Rightarrow>
          (fst (make_model_sources_image dm image_shape (Gaussian2D ev 1 1) (objs s' r) oversample),
           s'))"

subsection \<open>apply_poisson_noise\<close>

text \<open>
  \<open>check_random_state\<close> (from the package's utils) turns the \<open>random_state\<close> argument into
  a generator, and \<open>prng.poisson(data)\<close> draws the samples and advances the generator.
  Both are parameters, and both may raise: their exception is the call's.
\<close>

definition any_negative :: "grid \<Rightarrow> bool" where
  "any_negative data = list_ex (list_ex (\<lambda>v. v < 0)) data"

definition apply_poisson_noise ::
  "('seed \<Rightarrow> error + 'prng) \<Rightarrow> ('prng \<Rightarrow> grid \<Rightarrow> error + grid \<times> 'prng) \<Rightarrow> grid \<Rightarrow> 'seed
     \<Rightarrow> error + grid \<times> 'prng" where
  "apply_poisson_noise check_random_state poisson data random_state =
     (if any_negative data then Inl (ValueError ''data must not contain any negative values'')
      else (case check_random_state random_state of
              Inl e \<Rightarrow> Inl e
            | Inr prng \<Rightarrow> poisson prng data))"

text \<open>
  numpy's \<open>RandomState.poisson(lam)\<close> checks its argument before it draws: it rejects a
  negative expectation and one above its bound, which is a little below the largest
  64-bit integer. The drawing itself is the parameter \<open>draw\<close>.
\<close>

definition poisson_lam_max :: real where
  "poisson_lam_max = 2 ^ 63 - 1 - 10 * sqrt (2 ^ 63 - 1)"

definition numpy_poisson ::
  "('prng \<Rightarrow> grid \<Rightarrow> grid \<times> 'prng) \<Rightarrow> 'prng \<Rightarrow> grid \<Rightarrow> error + grid \<times> 'prng" where
  "numpy_poisson draw prng lam =
     (if list_ex (list_ex (\<lambda>v. v < 0)) lam then Inl (ValueError ''lam < 0'')
      else if list_ex (list_ex (\<lambda>v. poisson_lam_max < v)) lam
        then Inl (ValueError ''lam value too large'')
      else Inr (draw prng lam))"

subsection \<open>make_random_models_table\<close>




subsection \<open>Concrete inputs\<close>

text \<open>
  A model with two parameters whose evaluation fills the grid with \<open>a + b\<close>, once with
  Parameter objects as an astropy model has them and once with plain attributes, a
  kernel that evaluates the model, and small tables.
\<close>

definition flat_eval :: "(string \<Rightarrow> real) \<Rightarrow> nat \<Rightarrow> nat \<Rightarrow> error + grid" where
  "flat_eval p ny nx = Inr (replicate ny (replicate nx (p ''a'' + p ''b'')))"

definition flat_model :: model where
  "flat_model = \<lparr>param_names = [''a'', ''b''], params = (\<lambda>_. 0)(''a'' := 1, ''b'' := 2),
                 evaluate = flat_eval, parameter_objects = True\<rparr>"


definition flat_dm :: discretizer where
  "flat_dm m xr yr factor = evaluate m (params m) (snd yr) (snd xr)"

definition table_ab :: table where
  "table_ab = [(''a'', [10]), (''b'', [20])]"


definition table_no_rows :: table where
  "table_no_rows = [(''a'', []), (''id'', [])]"

definition table_flux :: table where
  "table_flux = [(''amplitude'', [7]), (''flux'', [4 * pi]), (''x_stddev'', [1]), (''y_stddev'', [2])]"

text \<open>A store holding that table at address 0.\<close>

definition store0 :: store where
  "store0 = \<lparr>objs = (\<lambda>_. [])(0 := table_flux), fresh = 1\<rparr>"

section \<open>Properties\<close>

subsection \<open>Insertion-ordered mappings\<close>

lemma map_of_setitem: "map_of (setitem k v kvs) = (map_of kvs)(k \<mapsto> v)"
  by (induction kvs) (auto simp: fun_eq_iff)

lemma map_of_delitem_other: "nm \<noteq> k \<Longrightarrow> map_of (delitem k kvs) nm = map_of kvs nm"
  by (induction kvs) auto

lemma keys_delitem: "distinct (map fst kvs) \<Longrightarrow> k \<notin> fst ` set (delitem k kvs)"
  by (induction kvs) (force split: if_splits)+

lemma keys_setitem:
  "map fst (setitem k v kvs) = (if k \<in> set (map fst kvs) then map fst kvs else map fst kvs @ [k])"
  by (induction kvs) (force split: if_splits)+

lemma setitem_not_Nil: "setitem k v kvs \<noteq> []"
  by (cases kvs) (auto split: if_splits)

lemma fold_setitem_not_Nil:
  "pts \<noteq> [] \<or> d \<noteq> [] \<Longrightarrow> fold (\<lambda>pnm d. setitem pnm (g pnm) d) pts d \<noteq> []"
  by (induction pts arbitrary: d) (auto simp: setitem_not_Nil)


subsection \<open>Saving and restoring the parameters\<close>

lemma init_params_not_Nil: "pts \<noteq> [] \<Longrightarrow> init_params m pts \<noteq> []"
  unfolding init_params_def by (rule fold_setitem_not_Nil) simp


lemma restore_params_unbound:
  "paramnm f = None \<Longrightarrow> init \<noteq> [] \<Longrightarrow>
   restore_params init f = (Some (UnboundLocalError ''paramnm''), f)"
  by (cases init) auto


text \<open>The \<open>finally\<close> loop writes one attribute, whatever was saved.\<close>

lemma fold_setattr_other:
  "param_names (fold (\<lambda>(pnm, val) m. setattr m p val) init m) = param_names m"
  "evaluate (fold (\<lambda>(pnm, val) m. setattr m p val) init m) = evaluate m"
  "parameter_objects (fold (\<lambda>(pnm, val) m. setattr m p val) init m) = parameter_objects m"
  by (induction init arbitrary: m) (auto simp: setattr_def)





subsection \<open>Well-formed tables\<close>

lemma valid_table_column:
  assumes v: "valid_table t" and nm: "nm \<in> set (colnames t)"
  shows "\<exists>vs. map_of t nm = Some vs \<and> length vs = len_table t"
proof -
  from nm obtain vs where mem: "(nm, vs) \<in> set t"
    by (auto simp: colnames_def)
  with v have "map_of t nm = Some vs"
    by (simp add: valid_table_def colnames_def)
  moreover from v mem have "length vs = len_table t"
    by (auto simp: valid_table_def list_all_iff)
  ultimately show ?thesis by simp
qed




subsection \<open>The per-row loop\<close>


lemma set_row_params_kind:
  "parameter_objects (the_model (snd (set_row_params t i pts f))) = parameter_objects (the_model f)"
  by (induction pts arbitrary: f) (auto simp: setattr_def split: sum.splits)













text \<open>Unfolding the renderer on the concrete inputs.\<close>

lemmas eval_defs = make_model_sources_image_def as_shape_def unpack2_def params_to_set_def
  colnames_def init_params_def getattr_def setattr_def len_table_def row_get_def add_source_def
  call_model_def iadd_def broadcast_to_def stretch_def attr_value_def zeros_def flat_model_def
  flat_eval_def flat_dm_def table_ab_def Let_def

lemma table_ab_facts:
  "valid_table table_ab" "0 < len_table table_ab" "2 \<le> length (params_to_set flat_model table_ab)"
  by (simp_all add: valid_table_def eval_defs)

lemma table_ab_render:
  "fst (make_model_sources_image flat_dm (Shape [1, 1]) flat_model table_ab 1) = Inr [[30]]"
  by (simp add: eval_defs)





subsection \<open>The generator's bound\<close>

lemma poisson_lam_max_below: "poisson_lam_max < 10 ^ 30"
proof -
  have "0 \<le> sqrt (2 ^ 63 - 1 :: real)" by simp
  then have "poisson_lam_max \<le> 2 ^ 63 - 1" by (simp add: poisson_lam_max_def)
  also have "\<dots> < (10 ^ 30 :: real)" by simp
  finally show ?thesis .
qed

lemma poisson_lam_max_nonneg: "0 \<le> poisson_lam_max"
proof -
  have "sqrt (2 ^ 63 - 1 :: real) \<le> 2 ^ 32"
    by (rule real_le_lsqrt) simp_all
  then show ?thesis by (simp add: poisson_lam_max_def)
qed

subsection \<open>Columns that are not parameters\<close>

lemma params_to_set_setitem:
  "c \<notin> set (param_names m) \<Longrightarrow> params_to_set m (setitem c vs t) = params_to_set m t"
  by (simp add: params_to_set_def colnames_def keys_setitem)

lemma len_table_setitem:
  "length vs = len_table t \<Longrightarrow> len_table (setitem c vs t) = len_table t"
  by (cases t) (auto simp: len_table_def)

lemma row_get_setitem: "nm \<noteq> c \<Longrightarrow> row_get (setitem c vs t) i nm = row_get t i nm"
  by (simp add: row_get_def map_of_setitem)

lemma set_row_params_setitem:
  "c \<notin> set pts \<Longrightarrow> set_row_params (setitem c vs t) i pts f = set_row_params t i pts f"
  by (induction pts arbitrary: f) (auto simp: row_get_setitem split: sum.splits)

lemma render_rows_setitem:
  "c \<notin> set pts \<Longrightarrow>
   render_rows dm ny nx os (setitem c vs t) pts is f = render_rows dm ny nx os t pts is f"
  by (induction "is" arbitrary: f)
     (auto simp: set_row_params_setitem split: prod.splits option.splits)

subsection \<open>Drawing columns\<close>


subsection \<open>The Gaussian table\<close>

lemma map_of_key: "map_of kvs k = Some v \<Longrightarrow> k \<in> set (map fst kvs)"
  by (induction kvs) (auto split: if_splits)

lemma distinct_keys_setitem: "distinct (map fst kvs) \<Longrightarrow> distinct (map fst (setitem k v kvs))"
  by (simp add: keys_setitem)

lemma flux_to_amplitude_nth:
  "i < length flux \<Longrightarrow> i < length sx \<Longrightarrow> i < length sy \<Longrightarrow>
   flux_to_amplitude flux sx sy ! i = flux ! i / (2 * pi * sx ! i * sy ! i)"
  by (simp add: flux_to_amplitude_def)

lemma flux_to_amplitude_length:
  "length (flux_to_amplitude flux sx sy) = min (length flux) (min (length sx) (length sy))"
  by (simp add: flux_to_amplitude_def)

lemma gaussian_table_flux:
  assumes a: "source_table < fresh s"
    and fl: "map_of (objs s source_table) ''flux'' = Some flux"
    and sx: "map_of (objs s source_table) ''x_stddev'' = Some x_stddev"
    and sy: "map_of (objs s source_table) ''y_stddev'' = Some y_stddev"
  shows "gaussian_table s source_table =
    (Inr (fresh s),
     s\<lparr>objs := (objs s)(fresh s :=
          delitem ''flux'' (setitem ''amplitude'' (flux_to_amplitude flux x_stddev y_stddev)
            (objs s source_table))),
       fresh := Suc (fresh s)\<rparr>)"
proof -
  from fl have "''flux'' \<in> set (colnames (objs s source_table))"
    unfolding colnames_def by (rule map_of_key)
  then show ?thesis
    using fl sx sy
    by (simp add: gaussian_table_def copy_table_def column_def write_table_def)
qed

lemma store0_facts:
  "0 < fresh store0" "valid_table (objs store0 0)"
  "map_of (objs store0 0) ''flux'' = Some [4 * pi]"
  "map_of (objs store0 0) ''x_stddev'' = Some [1]"
  "map_of (objs store0 0) ''y_stddev'' = Some [2]"
  by (simp_all add: store0_def table_flux_def valid_table_def colnames_def len_table_def)

section \<open>Specified behaviour\<close>

subsection \<open>The image argument\<close>

text \<open>
  C4 (a buffer passed instead of a shape is added into in place). The docstring promises
  it, but the function hands whatever it is given to \<open>np.zeros\<close> as a shape and never
  writes to its argument: with a 2x2 buffer of zeros the call raises TypeError at line
  293, before any source is rendered, and no image is returned.
\<close>

theorem array_argument_rejected:
  "make_model_sources_image flat_dm (Array [[0, 0], [0, 0]]) flat_model table_ab 1 =
     (Inl (TypeError ''only integer scalar arrays can be converted to a scalar index''),
      flat_model)"
  by (simp add: make_model_sources_image_def as_shape_def)



subsection \<open>Tables without rows\<close>

text \<open>
  C10 (zero rows but a matched column: an error instead of the zero-filled grid). The
  per-row loop never binds \<open>paramnm\<close>, the saved parameters are not empty, and the
  \<open>finally\<close> loop reads \<open>paramnm\<close>: the call raises UnboundLocalError. The model has not
  been written to.
\<close>

theorem no_rows_unbound_paramnm:
  "len_table t = 0 \<Longrightarrow> params_to_set m t \<noteq> [] \<Longrightarrow>
   make_model_sources_image dm (Shape [ny, nx]) m t oversample =
     (Inl (UnboundLocalError ''paramnm''), m)"
  by (simp add: make_model_sources_image_def as_shape_def unpack2_def
      restore_params_unbound init_params_not_Nil)

theorem no_rows_unbound_paramnm_witness:
  "len_table table_no_rows = 0 \<and> params_to_set flat_model table_no_rows \<noteq> [] \<and>
   make_model_sources_image flat_dm (Shape [2, 3]) flat_model table_no_rows 1 =
     (Inl (UnboundLocalError ''paramnm''), flat_model)"
proof -
  have h1: "len_table table_no_rows = 0"
    by (simp add: len_table_def table_no_rows_def)
  have h2: "params_to_set flat_model table_no_rows \<noteq> []"
    by (simp add: params_to_set_def colnames_def table_no_rows_def flat_model_def)
  show ?thesis
    using h1 h2 no_rows_unbound_paramnm [OF h1 h2, of flat_dm 2 3 1] by simp
qed

subsection \<open>Restoring the model\<close>

text \<open>
  C1 (after the call every parameter the renderer set has its pre-call value). The
  \<open>finally\<close> loop writes every saved value to the one attribute named by \<open>paramnm\<close>, so
  with two matched columns the first parameter is never written back: on the table with
  columns \<open>a = [10]\<close> and \<open>b = [20]\<close> the call returns, \<open>a\<close> had the value 1 before the
  call and has the row's value 10 after it.
\<close>

theorem first_parameter_not_restored:
  "params flat_model ''a'' = 1 \<and>
   fst (make_model_sources_image flat_dm (Shape [1, 2]) flat_model table_ab 2) = Inr [[30, 30]] \<and>
   params (snd (make_model_sources_image flat_dm (Shape [1, 2]) flat_model table_ab 2)) ''a'' = 10"
  by (simp add: eval_defs numeral_2_eq_2)







subsection \<open>Columns that are not parameters\<close>

text \<open>
  C7 (an extra column that is no parameter name never changes the rendered image). As
  stated this fails for a table without columns: it has no rows, and the column added to
  it brings its own rows, each of which renders the model with its current parameters.
\<close>

theorem extra_column_counterexample:
  "''id'' \<notin> set (param_names flat_model) \<and>
   fst (make_model_sources_image flat_dm (Shape [1, 1]) flat_model [] 1) = Inr [[0]] \<and>
   fst (make_model_sources_image flat_dm (Shape [1, 1]) flat_model (setitem ''id'' [5] []) 1)
     = Inr [[3]]"
  by (simp add: eval_defs)

text \<open>
  C7, amended: an extra column that is no parameter name and has as many entries as the
  table has rows changes neither the outcome of the call (the image or the exception) nor
  the state in which the model is left.
\<close>

theorem extra_column_ignored:
  assumes "c \<notin> set (param_names m)" and "length vs = len_table t"
  shows "make_model_sources_image dm image_shape m (setitem c vs t) os =
         make_model_sources_image dm image_shape m t os"
proof -
  have "c \<notin> set (params_to_set m t)"
    using assms(1) by (simp add: params_to_set_def)
  then show ?thesis
    by (simp add: make_model_sources_image_def params_to_set_setitem [OF assms(1)]
        len_table_setitem [OF assms(2)] render_rows_setitem cong: sum.case_cong)
qed

theorem extra_column_ignored_witness:
  "''id'' \<notin> set (param_names flat_model) \<and> length [5::real] = len_table table_ab \<and>
   make_model_sources_image flat_dm (Shape [1, 1]) flat_model (setitem ''id'' [5] table_ab) 1 =
   make_model_sources_image flat_dm (Shape [1, 1]) flat_model table_ab 1"
proof -
  have h1: "''id'' \<notin> set (param_names flat_model)" by (simp add: flat_model_def)
  have h2: "length [5::real] = len_table table_ab" by (simp add: len_table_def table_ab_def)
  show ?thesis
    using h1 h2 extra_column_ignored [OF h1 h2, of flat_dm "Shape [1, 1]" 1] by simp
qed

subsection \<open>Poisson noise\<close>

text \<open>
  C8 (the call fails exactly when some pixel is negative). As stated this fails: the
  generator's \<open>poisson\<close> rejects an expectation above its bound, so the input \<open>[[1e30]]\<close>,
  which has no negative value, makes line 80 raise ValueError.
\<close>

theorem large_expectation_counterexample:
  "\<not> any_negative [[10 ^ 30]] \<and>
   apply_poisson_noise (\<lambda>s :: nat. Inr s) (numpy_poisson (\<lambda>p d. (d, Suc p))) [[10 ^ 30]] 7 =
     Inl (ValueError ''lam value too large'')"
  using poisson_lam_max_below
  by (simp add: apply_poisson_noise_def any_negative_def numpy_poisson_def)

text \<open>
  C8, amended: the call fails with the ValueError of its own check whenever some pixel
  is negative. An input without negative values, an all-zero one included, is not
  rejected by the function itself: the outcome is the generator's for the data array as
  the array of expectations, its samples or its exception. Where the generator accepts
  the seed and the data, the call fails exactly when some pixel is negative.
\<close>

theorem poisson_rejects_negative:
  "((\<exists>row \<in> set data. \<exists>v \<in> set row. v < 0) \<longrightarrow>
      apply_poisson_noise crs poisson data rs =
        Inl (ValueError ''data must not contain any negative values'')) \<and>
   ((\<forall>row \<in> set data. \<forall>v \<in> set row. 0 \<le> v) \<longrightarrow>
      apply_poisson_noise crs poisson data rs =
        (case crs rs of Inl e \<Rightarrow> Inl e | Inr prng \<Rightarrow> poisson prng data)) \<and>
   (crs rs = Inr prng \<and> poisson prng data = Inr out \<longrightarrow>
      ((\<exists>e. apply_poisson_noise crs poisson data rs = Inl e) \<longleftrightarrow>
       (\<exists>row \<in> set data. \<exists>v \<in> set row. v < 0)))"
proof -
  have neg: "any_negative data \<longleftrightarrow> (\<exists>row \<in> set data. \<exists>v \<in> set row. v < 0)"
    by (simp add: any_negative_def list_ex_iff)
  have nonneg: "\<not> any_negative data" if "\<forall>row \<in> set data. \<forall>v \<in> set row. 0 \<le> v"
    unfolding neg using that by (meson not_le)
  have 1: "any_negative data \<longrightarrow>
      apply_poisson_noise crs poisson data rs =
        Inl (ValueError ''data must not contain any negative values'')"
    by (simp add: apply_poisson_noise_def)
  have 2: "\<not> any_negative data \<longrightarrow>
      apply_poisson_noise crs poisson data rs =
        (case crs rs of Inl e \<Rightarrow> Inl e | Inr prng \<Rightarrow> poisson prng data)"
    by (simp add: apply_poisson_noise_def)
  have 3: "(\<exists>e. apply_poisson_noise crs poisson data rs = Inl e) \<longleftrightarrow> any_negative data"
    if "crs rs = Inr prng \<and> poisson prng data = Inr out"
    using that by (simp add: apply_poisson_noise_def)
  from 1 2 3 nonneg show ?thesis
    unfolding neg by blast
qed

theorem poisson_rejects_negative_witness:
  "apply_poisson_noise (\<lambda>s :: nat. Inr s) (numpy_poisson (\<lambda>p d. (d, Suc p)))
     [[0, 0], [0, 0]] 7 = Inr ([[0, 0], [0, 0]], 8) \<and>
   apply_poisson_noise (\<lambda>s :: nat. Inr s) (numpy_poisson (\<lambda>p d. (d, Suc p))) [[1, -1]] 7 =
     Inl (ValueError ''data must not contain any negative values'')"
proof -
  have zero: "\<forall>row \<in> set [[0, 0], [0, 0 :: real]]. \<forall>v \<in> set row. 0 \<le> v"
    by simp
  have neg: "\<exists>row \<in> set [[1, -1 :: real]]. \<exists>v \<in> set row. v < 0"
    by simp
  have accepted: "numpy_poisson (\<lambda>p d. (d, Suc p)) (7 :: nat) [[0, 0], [0, 0]] =
      Inr ([[0, 0], [0, 0]], 8)"
    using poisson_lam_max_nonneg by (simp add: numpy_poisson_def not_less)
  show ?thesis
    using zero neg accepted
      poisson_rejects_negative [of "[[0, 0], [0, 0]]" "\<lambda>s :: nat. Inr s"
        "numpy_poisson (\<lambda>p d. (d, Suc p))" 7]
      poisson_rejects_negative [of "[[1, -1]]" "\<lambda>s :: nat. Inr s"
        "numpy_poisson (\<lambda>p d. (d, Suc p))" 7]
    by simp
qed

subsection \<open>Random tables\<close>



subsection \<open>Gaussian sources\<close>

text \<open>
  C6 (a table with a flux column: every row gets the amplitude
  \<open>flux / (2 pi x_stddev y_stddev)\<close> of its own standard deviations, an amplitude column
  that was there is overwritten, and the caller's table is not mutated). The table that
  is rendered has the converted amplitudes, no flux column and every other column as it
  was; the table at the caller's address is the same after the call. The quotient is
  stated for rows with non-zero standard deviations.
\<close>

theorem flux_converted_on_copy:
  assumes a: "source_table < fresh s"
    and v: "valid_table (objs s source_table)"
    and fl: "map_of (objs s source_table) ''flux'' = Some flux"
    and sx: "map_of (objs s source_table) ''x_stddev'' = Some x_stddev"
    and sy: "map_of (objs s source_table) ''y_stddev'' = Some y_stddev"
  shows "\<exists>t'.
      fst (make_gaussian_sources_image ev dm s image_shape source_table os) =
        fst (make_model_sources_image dm image_shape (Gaussian2D ev 1 1) t' os) \<and>
      (\<forall>i < len_table (objs s source_table).
         x_stddev ! i \<noteq> 0 \<and> y_stddev ! i \<noteq> 0 \<longrightarrow>
         row_get t' i ''amplitude'' = Inr (flux ! i / (2 * pi * x_stddev ! i * y_stddev ! i))) \<and>
      ''flux'' \<notin> set (colnames t') \<and>
      (\<forall>nm. nm \<noteq> ''amplitude'' \<and> nm \<noteq> ''flux'' \<longrightarrow>
         map_of t' nm = map_of (objs s source_table) nm) \<and>
      objs (snd (make_gaussian_sources_image ev dm s image_shape source_table os)) source_table =
        objs s source_table"
proof -
  let ?t = "objs s source_table"
  let ?amp = "flux_to_amplitude flux x_stddev y_stddev"
  let ?t' = "delitem ''flux'' (setitem ''amplitude'' ?amp ?t)"
  note g = gaussian_table_flux [OF a fl sx sy]
  have len: "length flux = len_table ?t" "length x_stddev = len_table ?t"
    "length y_stddev = len_table ?t"
    using valid_table_column [OF v, of "''flux''"] valid_table_column [OF v, of "''x_stddev''"]
      valid_table_column [OF v, of "''y_stddev''"] fl sx sy
      map_of_key [OF fl] map_of_key [OF sx] map_of_key [OF sy]
    by (auto simp: colnames_def)
  have 1: "fst (make_gaussian_sources_image ev dm s image_shape source_table os) =
        fst (make_model_sources_image dm image_shape (Gaussian2D ev 1 1) ?t' os)"
    by (simp add: make_gaussian_sources_image_def g)
  have amp: "map_of ?t' ''amplitude'' = Some ?amp"
    by (simp add: map_of_delitem_other map_of_setitem)
  have 2: "row_get ?t' i ''amplitude'' = Inr (flux ! i / (2 * pi * x_stddev ! i * y_stddev ! i))"
    if "i < len_table ?t" for i
    using that len by (simp add: row_get_def amp flux_to_amplitude_length flux_to_amplitude_nth)
  from v have "distinct (map fst (setitem ''amplitude'' ?amp ?t))"
    by (simp add: valid_table_def colnames_def distinct_keys_setitem)
  then have 3: "''flux'' \<notin> set (colnames ?t')"
    unfolding colnames_def using keys_delitem [of "setitem ''amplitude'' ?amp ?t" "''flux''"]
    by simp
  have 4: "map_of ?t' nm = map_of ?t nm" if "nm \<noteq> ''amplitude'' \<and> nm \<noteq> ''flux''" for nm
    using that by (simp add: map_of_delitem_other map_of_setitem)
  from a have 5: "objs (snd (make_gaussian_sources_image ev dm s image_shape source_table os))
      source_table = ?t"
    by (simp add: make_gaussian_sources_image_def g)
  from 1 2 3 4 5 show ?thesis by blast
qed

theorem flux_converted_on_copy_witness:
  "0 < fresh store0 \<and> valid_table (objs store0 0) \<and>
   map_of (objs store0 0) ''flux'' = Some [4 * pi] \<and>
   map_of (objs store0 0) ''x_stddev'' = Some [1] \<and>
   map_of (objs store0 0) ''y_stddev'' = Some [2] \<and>
   (\<exists>t'.
      fst (make_gaussian_sources_image flat_eval flat_dm store0 (Shape [1, 1]) 0 1) =
        fst (make_model_sources_image flat_dm (Shape [1, 1]) (Gaussian2D flat_eval 1 1) t' 1) \<and>
      (\<forall>i < len_table (objs store0 0).
         [1 :: real] ! i \<noteq> 0 \<and> [2 :: real] ! i \<noteq> 0 \<longrightarrow>
         row_get t' i ''amplitude'' = Inr ([4 * pi] ! i / (2 * pi * [1] ! i * [2] ! i))) \<and>
      ''flux'' \<notin> set (colnames t') \<and>
      (\<forall>nm. nm \<noteq> ''amplitude'' \<and> nm \<noteq> ''flux'' \<longrightarrow>
         map_of t' nm = map_of (objs store0 0) nm) \<and>
      objs (snd (make_gaussian_sources_image flat_eval flat_dm store0 (Shape [1, 1]) 0 1)) 0 =
        objs store0 0)"
  using store0_facts
    flux_converted_on_copy [OF store0_facts, of flat_eval flat_dm "Shape [1, 1]" 1]
  by (intro conjI) assumption+

end
